theory Spec2Isabelle
  imports Complex_Main
begin

section \<open>Packing coloring as an integer linear program\<close>

text \<open>
  A shallow embedding of \<^verbatim>\<open>solve_packing_coloring\<close> from
  \<^verbatim>\<open>packing_coloring_optimizer.py\<close>.

  The function receives a graph, builds a PuLP model, hands it to an external solver
  and decodes the solver's answer. Three things come from outside the repository and are
  parameters of the model:
  \<^item> the distance table \<^verbatim>\<open>dict(nx.all_pairs_shortest_path_length(G))\<close>, read only as
    \<^verbatim>\<open>distances[v].get(u)\<close>: a function \<open>distances v u\<close> that is \<open>None\<close> when \<open>u\<close> is
    not reachable from \<open>v\<close>;
  \<^item> the solver \<^verbatim>\<open>model.solve(pulp.CPLEX_PY(msg=False))\<close>: a function from the model
    to a status and a value for every variable;
  \<^item> the text that a vertex contributes to a name: \<open>label v\<close> is what \<^verbatim>\<open>{v}\<close> becomes in
    \<^verbatim>\<open>f"OneColor_{v}"\<close>, \<^verbatim>\<open>f"Pack_{v}_{u}_color_{i}"\<close> and \<^verbatim>\<open>f"MaxColor_{v}_{i}"\<close>.

  Constraint names are the strings that the source builds, and \<^verbatim>\<open>model += ...\<close> raises
  PuLP's error when a name is already in the model, so that model construction is a
  function into \<open>error + model\<close>. Variables are identified by the vertex and the colour
  they were created for (PuLP identifies a variable by the object; two of them print to the
  same name \<^verbatim>\<open>x_{v}_{i}\<close> only when two vertices have the same label, and then the
  construction has failed at the second \<^verbatim>\<open>OneColor\<close> name).
  Values of variables are the real numbers that the solver's floating-point numbers denote;
  the comparison with 0.5 is exact on them.
\<close>

subsection \<open>The graph\<close>

text \<open>\<^verbatim>\<open>G.nodes\<close> in iteration order; \<^verbatim>\<open>G.number_of_nodes()\<close> is its length.\<close>

record 'v graph =
  nodes :: "'v list"

definition number_of_nodes :: "'v graph \<Rightarrow> nat" where
  "number_of_nodes G = length (nodes G)"

text \<open>\<^verbatim>\<open>range(1, k + 1)\<close>\<close>

definition range1 :: "nat \<Rightarrow> nat list" where
  "range1 k = [1..<k + 1]"

text \<open>\<^verbatim>\<open>itertools.combinations(xs, 2)\<close>: pairs by position, first component earlier.\<close>

fun combinations2 :: "'a list \<Rightarrow> ('a \<times> 'a) list" where
  "combinations2 [] = []"
| "combinations2 (x # xs) = map (Pair x) xs @ combinations2 xs"

subsection \<open>Names\<close>

text \<open>The decimal text of a colour, as \<^verbatim>\<open>{i}\<close> prints it.\<close>

definition digit :: "nat \<Rightarrow> char" where
  "digit n = ''0123456789'' ! n"

function str_nat :: "nat \<Rightarrow> string" where
  "str_nat n = (if n < 10 then [digit n] else str_nat (n div 10) @ [digit (n mod 10)])"
  by pat_completeness auto
termination
  by (relation "measure (\<lambda>n. n)") auto

definition one_color_name :: "('v \<Rightarrow> string) \<Rightarrow> 'v \<Rightarrow> string" where
  "one_color_name label v = ''OneColor_'' @ label v"

definition pack_name :: "('v \<Rightarrow> string) \<Rightarrow> 'v \<Rightarrow> 'v \<Rightarrow> nat \<Rightarrow> string" where
  "pack_name label v u i = ''Pack_'' @ label v @ ''_'' @ label u @ ''_color_'' @ str_nat i"

definition max_color_name :: "('v \<Rightarrow> string) \<Rightarrow> 'v \<Rightarrow> nat \<Rightarrow> string" where
  "max_color_name label v i = ''MaxColor_'' @ label v @ ''_'' @ str_nat i"

subsection \<open>PuLP objects\<close>

datatype 'v var_name = X 'v nat | Z

datatype category = LpBinary | LpInteger

record 'v LpVariable =
  name :: "'v var_name"
  lowBound :: "int option"
  upBound :: "int option"
  cat :: category

text \<open>A linear expression: variables with their coefficients, and a constant.\<close>

record 'v LpAffineExpression =
  lin_terms :: "('v LpVariable \<times> int) list"
  const_part :: int

datatype constraint_sense = LpConstraintLE | LpConstraintEQ

record 'v LpConstraint =
  lhs :: "'v LpAffineExpression"
  sense :: constraint_sense
  rhs :: "'v LpAffineExpression"

datatype objective_sense = LpMinimize | LpMaximize

text \<open>The constraints of a problem are kept under their names, in the order of insertion.\<close>

record 'v LpProblem =
  problem_name :: string
  problem_sense :: objective_sense
  objective :: "'v LpAffineExpression"
  constraints :: "(string \<times> 'v LpConstraint) list"

datatype LpStatus =
  LpStatusOptimal | LpStatusNotSolved | LpStatusInfeasible | LpStatusUnbounded
  | LpStatusUndefined

text \<open>\<open>PulpError n\<close>: "overlapping constraint names: n".\<close>

datatype error = PulpError string

text \<open>The expressions the source writes.\<close>

definition var_expr :: "'v LpVariable \<Rightarrow> 'v LpAffineExpression" where
  "var_expr y = \<lparr>lin_terms = [(y, 1)], const_part = 0\<rparr>"

definition const_expr :: "int \<Rightarrow> 'v LpAffineExpression" where
  "const_expr c = \<lparr>lin_terms = [], const_part = c\<rparr>"

definition lpSum :: "'v LpVariable list \<Rightarrow> 'v LpAffineExpression" where
  "lpSum ys = \<lparr>lin_terms = map (\<lambda>y. (y, 1)) ys, const_part = 0\<rparr>"

definition add_vars :: "'v LpVariable \<Rightarrow> 'v LpVariable \<Rightarrow> 'v LpAffineExpression" where
  "add_vars y y' = \<lparr>lin_terms = [(y, 1), (y', 1)], const_part = 0\<rparr>"

definition scale_var :: "int \<Rightarrow> 'v LpVariable \<Rightarrow> 'v LpAffineExpression" where
  "scale_var c y = \<lparr>lin_terms = [(y, c)], const_part = 0\<rparr>"

text \<open>
  \<^verbatim>\<open>model += constraint, name\<close>: PuLP raises when the name is already used by a
  constraint of the model, and appends the constraint otherwise.
\<close>

definition add_constraint ::
  "'v LpProblem \<Rightarrow> string \<times> 'v LpConstraint \<Rightarrow> error + 'v LpProblem" where
  "add_constraint model nc =
     (if fst nc \<in> set (map fst (constraints model)) then Inl (PulpError (fst nc))
      else Inr (model\<lparr>constraints := constraints model @ [nc]\<rparr>))"

text \<open>A \<^verbatim>\<open>for\<close> loop over a list whose body may raise: the first error ends the loop.\<close>

fun for_each :: "('a \<Rightarrow> 's \<Rightarrow> error + 's) \<Rightarrow> 'a list \<Rightarrow> 's \<Rightarrow> error + 's" where
  "for_each body [] s = Inr s"
| "for_each body (x # xs) s =
     (case body x s of Inl e \<Rightarrow> Inl e | Inr s' \<Rightarrow> for_each body xs s')"

subsection \<open>Model construction\<close>

text \<open>
  \<^verbatim>\<open>x[(v, i)]\<close>: the dictionary comprehension creates one binary variable for each key,
  and every later read of \<^verbatim>\<open>x[(v, i)]\<close> is the variable made by \<open>x_var v i\<close>.
\<close>

definition x_var :: "'v \<Rightarrow> nat \<Rightarrow> 'v LpVariable" where
  "x_var v i = \<lparr>name = X v i, lowBound = None, upBound = None, cat = LpBinary\<rparr>"

definition x_dict :: "'v graph \<Rightarrow> (('v \<times> nat) \<times> 'v LpVariable) list" where
  "x_dict G =
     concat (map (\<lambda>v. map (\<lambda>i. ((v, i), x_var v i)) (range1 (number_of_nodes G))) (nodes G))"

definition z_var :: "'v graph \<Rightarrow> 'v LpVariable" where
  "z_var G =
     \<lparr>name = Z, lowBound = Some 1, upBound = Some (int (number_of_nodes G)), cat = LpInteger\<rparr>"

definition one_color_constraint ::
  "('v \<Rightarrow> string) \<Rightarrow> nat \<Rightarrow> 'v \<Rightarrow> string \<times> 'v LpConstraint" where
  "one_color_constraint label k v =
     (one_color_name label v,
      \<lparr>lhs = lpSum (map (x_var v) (range1 k)), sense = LpConstraintEQ, rhs = const_expr 1\<rparr>)"

definition pack_constraint ::
  "('v \<Rightarrow> string) \<Rightarrow> 'v \<Rightarrow> 'v \<Rightarrow> nat \<Rightarrow> string \<times> 'v LpConstraint" where
  "pack_constraint label v u i =
     (pack_name label v u i,
      \<lparr>lhs = add_vars (x_var v i) (x_var u i), sense = LpConstraintLE, rhs = const_expr 1\<rparr>)"

definition max_color_constraint ::
  "('v \<Rightarrow> string) \<Rightarrow> 'v graph \<Rightarrow> 'v \<Rightarrow> nat \<Rightarrow> string \<times> 'v LpConstraint" where
  "max_color_constraint label G v i =
     (max_color_name label v i,
      \<lparr>lhs = scale_var (int i) (x_var v i), sense = LpConstraintLE, rhs = var_expr (z_var G)\<rparr>)"

text \<open>The model after \<^verbatim>\<open>model += z\<close>, before the first constraint.\<close>

definition initial_model :: "'v graph \<Rightarrow> 'v LpProblem" where
  "initial_model G =
     \<lparr>problem_name = ''PackingColoring'', problem_sense = LpMinimize,
      objective = var_expr (z_var G), constraints = []\<rparr>"

text \<open>The three constraint loops, each threading the model.\<close>

definition one_color_loop ::
  "('v \<Rightarrow> string) \<Rightarrow> 'v graph \<Rightarrow> 'v LpProblem \<Rightarrow> error + 'v LpProblem" where
  "one_color_loop label G model =
     for_each (\<lambda>v m. add_constraint m (one_color_constraint label (number_of_nodes G) v))
       (nodes G) model"

definition pack_pairs ::
  "('v \<Rightarrow> string) \<Rightarrow> 'v graph \<Rightarrow> ('v \<Rightarrow> 'v \<Rightarrow> nat option) \<Rightarrow> nat \<Rightarrow> 'v LpProblem
   \<Rightarrow> error + 'v LpProblem" where
  "pack_pairs label G distances i model =
     for_each (\<lambda>(v, u) m.
                 (case distances v u of
                    None \<Rightarrow> Inr m
                  | Some d \<Rightarrow>
                      if d \<le> i then add_constraint m (pack_constraint label v u i) else Inr m))
       (combinations2 (nodes G)) model"

definition pack_loop ::
  "('v \<Rightarrow> string) \<Rightarrow> 'v graph \<Rightarrow> ('v \<Rightarrow> 'v \<Rightarrow> nat option) \<Rightarrow> 'v LpProblem
   \<Rightarrow> error + 'v LpProblem" where
  "pack_loop label G distances model =
     for_each (\<lambda>i m. pack_pairs label G distances i m) (range1 (number_of_nodes G)) model"

definition max_color_loop ::
  "('v \<Rightarrow> string) \<Rightarrow> 'v graph \<Rightarrow> 'v LpProblem \<Rightarrow> error + 'v LpProblem" where
  "max_color_loop label G model =
     for_each (\<lambda>v m. for_each (\<lambda>i m'. add_constraint m' (max_color_constraint label G v i))
                        (range1 (number_of_nodes G)) m)
       (nodes G) model"

definition build_model ::
  "('v \<Rightarrow> string) \<Rightarrow> ('v \<Rightarrow> 'v \<Rightarrow> nat option) \<Rightarrow> 'v graph \<Rightarrow> error + 'v LpProblem" where
  "build_model label distances G =
     (case one_color_loop label G (initial_model G) of
        Inl e \<Rightarrow> Inl e
      | Inr m1 \<Rightarrow>
          (case pack_loop label G distances m1 of
             Inl e \<Rightarrow> Inl e
           | Inr m2 \<Rightarrow> max_color_loop label G m2))"

subsection \<open>Solving and decoding\<close>

text \<open>
  The inner decoding loop: the first colour whose value is above 0.5, and \<open>None\<close> when
  the loop ends without \<^verbatim>\<open>break\<close>.
\<close>

fun first_color :: "('v var_name \<Rightarrow> real) \<Rightarrow> 'v \<Rightarrow> nat list \<Rightarrow> nat option" where
  "first_color varValue v [] = None"
| "first_color varValue v (i # cs) =
     (if varValue (name (x_var v i)) > 0.5 then Some i else first_color varValue v cs)"

text \<open>The outer loop: a vertex with no colour found gets no entry.\<close>

fun extract_colors ::
  "('v var_name \<Rightarrow> real) \<Rightarrow> nat \<Rightarrow> 'v list \<Rightarrow> ('v \<rightharpoonup> nat) \<Rightarrow> ('v \<rightharpoonup> nat)" where
  "extract_colors varValue k [] color_assignment = color_assignment"
| "extract_colors varValue k (v # vs) color_assignment =
     extract_colors varValue k vs
       (case first_color varValue v (range1 k) of
          None \<Rightarrow> color_assignment
        | Some i \<Rightarrow> color_assignment(v \<mapsto> i))"

type_synonym 'v solver = "'v LpProblem \<Rightarrow> LpStatus \<times> ('v var_name \<Rightarrow> real)"

text \<open>
  The whole function. An error of the construction leaves the function before the solver
  is called; \<open>z_val\<close> is the value of \<open>z\<close> as the solver gave it.
\<close>

definition solve_packing_coloring ::
  "('v \<Rightarrow> string) \<Rightarrow> 'v solver \<Rightarrow> ('v \<Rightarrow> 'v \<Rightarrow> nat option) \<Rightarrow> 'v graph
   \<Rightarrow> error + (('v \<rightharpoonup> nat) option \<times> real option)" where
  "solve_packing_coloring label solver distances G =
     (let k = number_of_nodes G in
      case build_model label distances G of
        Inl e \<Rightarrow> Inl e
      | Inr model \<Rightarrow>
          (let (status, varValue) = solver model
           in if status = LpStatusOptimal
              then Inr (Some (extract_colors varValue k (nodes G) Map.empty),
                        Some (varValue (name (z_var G))))
              else Inr (None, None)))"

subsection \<open>What a solution of the model is\<close>

definition eval_expr :: "('v var_name \<Rightarrow> real) \<Rightarrow> 'v LpAffineExpression \<Rightarrow> real" where
  "eval_expr val e =
     sum_list (map (\<lambda>(y, c). real_of_int c * val (name y)) (lin_terms e)) + real_of_int (const_part e)"

definition satisfies :: "('v var_name \<Rightarrow> real) \<Rightarrow> 'v LpConstraint \<Rightarrow> bool" where
  "satisfies val c =
     (case sense c of
        LpConstraintLE \<Rightarrow> eval_expr val (lhs c) \<le> eval_expr val (rhs c)
      | LpConstraintEQ \<Rightarrow> eval_expr val (lhs c) = eval_expr val (rhs c))"

definition in_domain :: "('v var_name \<Rightarrow> real) \<Rightarrow> 'v LpVariable \<Rightarrow> bool" where
  "in_domain val y =
     (case cat y of
        LpBinary \<Rightarrow> val (name y) = 0 \<or> val (name y) = 1
      | LpInteger \<Rightarrow>
          real_of_int \<lfloor>val (name y)\<rfloor> = val (name y)
          \<and> (case lowBound y of None \<Rightarrow> True | Some l \<Rightarrow> real_of_int l \<le> val (name y))
          \<and> (case upBound y of None \<Rightarrow> True | Some u \<Rightarrow> val (name y) \<le> real_of_int u))"

text \<open>The variables of a model are those of its objective and its constraints.\<close>

definition variables :: "'v LpProblem \<Rightarrow> 'v LpVariable list" where
  "variables model =
     map fst (lin_terms (objective model))
     @ concat (map (\<lambda>(n, c). map fst (lin_terms (lhs c)) @ map fst (lin_terms (rhs c)))
                 (constraints model))"

definition feasible :: "'v LpProblem \<Rightarrow> ('v var_name \<Rightarrow> real) \<Rightarrow> bool" where
  "feasible model val =
     (list_all (\<lambda>(n, c). satisfies val c) (constraints model)
      \<and> list_all (in_domain val) (variables model))"

text \<open>
  What a solver promises at the least when it reports an optimal solution: every variable
  is within its bounds, up to the tolerance \<open>tol\<close> of the solver.
\<close>

definition within_bounds :: "real \<Rightarrow> ('v var_name \<Rightarrow> real) \<Rightarrow> 'v LpVariable \<Rightarrow> bool" where
  "within_bounds tol val y =
     ((case lowBound y of None \<Rightarrow> True | Some l \<Rightarrow> real_of_int l - tol \<le> val (name y))
      \<and> (case upBound y of None \<Rightarrow> True | Some u \<Rightarrow> val (name y) \<le> real_of_int u + tol))"

subsection \<open>The constraint list in closed form\<close>

text \<open>
  The test \<^verbatim>\<open>d is not None and d <= i\<close> of the packing loop as a predicate on a pair,
  the three groups of constraints that the loops try to add, in the order of the source,
  and the model that results when every one of them is accepted.
\<close>

definition close_enough :: "('v \<Rightarrow> 'v \<Rightarrow> nat option) \<Rightarrow> nat \<Rightarrow> 'v \<times> 'v \<Rightarrow> bool" where
  "close_enough distances i p = (case distances (fst p) (snd p) of None \<Rightarrow> False | Some d \<Rightarrow> d \<le> i)"

definition one_color_part :: "('v \<Rightarrow> string) \<Rightarrow> 'v graph \<Rightarrow> (string \<times> 'v LpConstraint) list" where
  "one_color_part label G = map (one_color_constraint label (number_of_nodes G)) (nodes G)"

definition pack_part ::
  "('v \<Rightarrow> string) \<Rightarrow> 'v graph \<Rightarrow> ('v \<Rightarrow> 'v \<Rightarrow> nat option) \<Rightarrow> (string \<times> 'v LpConstraint) list" where
  "pack_part label G distances =
     concat (map (\<lambda>i. map (\<lambda>(v, u). pack_constraint label v u i)
                       (filter (close_enough distances i) (combinations2 (nodes G))))
               (range1 (number_of_nodes G)))"

definition max_color_part :: "('v \<Rightarrow> string) \<Rightarrow> 'v graph \<Rightarrow> (string \<times> 'v LpConstraint) list" where
  "max_color_part label G =
     concat (map (\<lambda>v. map (max_color_constraint label G v) (range1 (number_of_nodes G)))
               (nodes G))"

definition planned_constraints ::
  "('v \<Rightarrow> string) \<Rightarrow> 'v graph \<Rightarrow> ('v \<Rightarrow> 'v \<Rightarrow> nat option) \<Rightarrow> (string \<times> 'v LpConstraint) list" where
  "planned_constraints label G distances =
     one_color_part label G @ pack_part label G distances @ max_color_part label G"

definition expected_model ::
  "('v \<Rightarrow> string) \<Rightarrow> 'v graph \<Rightarrow> ('v \<Rightarrow> 'v \<Rightarrow> nat option) \<Rightarrow> 'v LpProblem" where
  "expected_model label G distances =
     (initial_model G)\<lparr>constraints := planned_constraints label G distances\<rparr>"

subsection \<open>Example graphs and solver answers\<close>

text \<open>The path 1 - 2 - 3, with a solver answer that colours it 1, 2, 1 and sets \<open>z = 2\<close>.\<close>

definition path3 :: "nat graph" where
  "path3 = \<lparr>nodes = [1, 2, 3]\<rparr>"

definition path3_distances :: "nat \<Rightarrow> nat \<Rightarrow> nat option" where
  "path3_distances a b = Some (if a \<le> b then b - a else a - b)"

fun path3_values :: "nat var_name \<Rightarrow> real" where
  "path3_values Z = 2"
| "path3_values (X v i) = (if (v = 2 \<and> i = 2) \<or> (v \<noteq> 2 \<and> i = 1) then 1 else 0)"

definition path3_solver :: "nat solver" where
  "path3_solver model = (LpStatusOptimal, path3_values)"

text \<open>
  A solver answer that is not integral: for every vertex the variables of colours 2 and 3
  are both above the threshold.
\<close>

fun fractional_values :: "nat var_name \<Rightarrow> real" where
  "fractional_values Z = 3"
| "fractional_values (X v i) = (if i = 1 then 0.4 else 0.6)"

text \<open>The graph without vertices.\<close>

definition empty_graph :: "nat graph" where
  "empty_graph = \<lparr>nodes = []\<rparr>"

text \<open>
  A solver that reports \<open>LpStatusOptimal\<close> only for a candidate it has checked against
  the model.
\<close>

definition checking_solver :: "('v var_name \<Rightarrow> real) \<Rightarrow> 'v solver" where
  "checking_solver candidate model =
     (if feasible model candidate then (LpStatusOptimal, candidate)
      else (LpStatusInfeasible, candidate))"

text \<open>Every two different vertices are neighbours.\<close>

definition unit_distances :: "'v \<Rightarrow> 'v \<Rightarrow> nat option" where
  "unit_distances a b = Some (if a = b then 0 else 1)"

text \<open>The complete graph on four vertices whose labels are the strings a, a_b, b_c and c.\<close>

definition labelled_k4 :: "string graph" where
  "labelled_k4 = \<lparr>nodes = [''a'', ''a_b'', ''b_c'', ''c'']\<rparr>"

text \<open>
  Vertices that are numbers or strings, with the text that \<^verbatim>\<open>{v}\<close> prints for them, and the
  graph whose two vertices are the number 1 and the string '1'.
\<close>

datatype py_node = IntNode nat | StrNode string

fun py_str :: "py_node \<Rightarrow> string" where
  "py_str (IntNode n) = str_nat n"
| "py_str (StrNode s) = s"

definition one_and_quoted_one :: "py_node graph" where
  "one_and_quoted_one = \<lparr>nodes = [IntNode 1, StrNode ''1'']\<rparr>"

text \<open>
  The triangle on 1, 2, 3, and a solver answer that colours it 1, 2, 3 and gives \<open>z\<close> the
  floating-point number 2.9999999999999574.
\<close>

definition triangle :: "nat graph" where
  "triangle = \<lparr>nodes = [1, 2, 3]\<rparr>"

fun inexact_values :: "nat var_name \<Rightarrow> real" where
  "inexact_values Z = 2.9999999999999574"
| "inexact_values (X v i) = (if v = i then 1 else 0)"

definition inexact_solver :: "nat solver" where
  "inexact_solver model = (LpStatusOptimal, inexact_values)"

section \<open>Model construction\<close>

text \<open>
  The loops add the planned constraints one after the other; the construction succeeds
  exactly when their names are pairwise different, and then the model holds all of them.
\<close>

lemma for_each_append:
  "for_each body (xs @ ys) s
   = (case for_each body xs s of Inl e \<Rightarrow> Inl e | Inr s' \<Rightarrow> for_each body ys s')"
  by (induction xs arbitrary: s) (simp_all split: sum.splits)

lemma for_each_map:
  "for_each (\<lambda>x. body (h x)) xs s = for_each body (map h xs) s"
  by (induction xs arbitrary: s) (simp_all split: sum.splits)

lemma for_each_filter:
  "for_each (\<lambda>x s. if P x then body x s else Inr s) xs s = for_each body (filter P xs) s"
  by (induction xs arbitrary: s) (simp_all split: sum.splits)

lemma for_each_concat:
  "for_each (\<lambda>x. for_each body (h x)) xs s = for_each body (concat (map h xs)) s"
  by (induction xs arbitrary: s) (simp_all add: for_each_append split: sum.splits)

lemma add_all_Inr_iff:
  "for_each (\<lambda>nc m. add_constraint m nc) ncs m = Inr m'
   \<longleftrightarrow> distinct (map fst ncs) \<and> set (map fst ncs) \<inter> set (map fst (constraints m)) = {}
       \<and> m' = m\<lparr>constraints := constraints m @ ncs\<rparr>"
proof (induction ncs arbitrary: m)
  case Nil
  show ?case by auto
next
  case (Cons nc ncs)
  show ?case
  proof (cases "fst nc \<in> set (map fst (constraints m))")
    case True
    then show ?thesis by (auto simp: add_constraint_def)
  next
    case False
    then have "for_each (\<lambda>nc m. add_constraint m nc) (nc # ncs) m
               = for_each (\<lambda>nc m. add_constraint m nc) ncs
                   (m\<lparr>constraints := constraints m @ [nc]\<rparr>)"
      by (simp add: add_constraint_def)
    with False show ?thesis
      by (simp add: Cons.IH) (auto simp: image_iff)
  qed
qed

lemma for_each_add_map:
  "for_each (\<lambda>x m. add_constraint m (f x)) xs m
   = for_each (\<lambda>nc m. add_constraint m nc) (map f xs) m"
  by (rule for_each_map [of "\<lambda>nc m. add_constraint m nc" f])

lemma one_color_loop_eq:
  "one_color_loop label G m
   = for_each (\<lambda>nc m. add_constraint m nc) (one_color_part label G) m"
  unfolding one_color_loop_def one_color_part_def
  by (rule for_each_map [of "\<lambda>nc m. add_constraint m nc"])

lemma pack_pairs_eq:
  "pack_pairs label G distances i m
   = for_each (\<lambda>nc m. add_constraint m nc)
       (map (\<lambda>(v, u). pack_constraint label v u i)
          (filter (close_enough distances i) (combinations2 (nodes G)))) m"
proof -
  have body: "(\<lambda>(v, u) m.
                 (case distances v u of
                    None \<Rightarrow> Inr m
                  | Some d \<Rightarrow>
                      if d \<le> i then add_constraint m (pack_constraint label v u i) else Inr m))
        = (\<lambda>p m. if close_enough distances i p
                  then (\<lambda>p m. add_constraint m (case p of (v, u) \<Rightarrow> pack_constraint label v u i)) p m
                  else Inr m)"
    by (auto simp: fun_eq_iff close_enough_def split: option.splits)
  show ?thesis
    unfolding pack_pairs_def body for_each_filter
    by (rule for_each_map [of "\<lambda>nc m. add_constraint m nc"
          "\<lambda>p. case p of (v, u) \<Rightarrow> pack_constraint label v u i"])
qed

lemma pack_loop_eq:
  "pack_loop label G distances m
   = for_each (\<lambda>nc m. add_constraint m nc) (pack_part label G distances) m"
proof -
  have "pack_loop label G distances m
        = for_each (\<lambda>i. for_each (\<lambda>nc m. add_constraint m nc)
              (map (\<lambda>(v, u). pack_constraint label v u i)
                 (filter (close_enough distances i) (combinations2 (nodes G)))))
            (range1 (number_of_nodes G)) m"
    by (simp add: pack_loop_def pack_pairs_eq)
  then show ?thesis
    by (simp only: for_each_concat pack_part_def)
qed

lemma max_color_loop_eq:
  "max_color_loop label G m
   = for_each (\<lambda>nc m. add_constraint m nc) (max_color_part label G) m"
proof -
  have "(\<lambda>v. for_each (\<lambda>i m'. add_constraint m' (max_color_constraint label G v i))
              (range1 (number_of_nodes G)))
        = (\<lambda>v. for_each (\<lambda>nc m. add_constraint m nc)
              (map (max_color_constraint label G v) (range1 (number_of_nodes G))))"
    by (intro ext) (rule for_each_add_map)
  then have "max_color_loop label G m
        = for_each (\<lambda>v. for_each (\<lambda>nc m. add_constraint m nc)
              (map (max_color_constraint label G v) (range1 (number_of_nodes G))))
            (nodes G) m"
    by (simp add: max_color_loop_def)
  then show ?thesis
    by (simp only: for_each_concat max_color_part_def)
qed

lemma build_model_eq:
  "build_model label distances G
   = for_each (\<lambda>nc m. add_constraint m nc) (planned_constraints label G distances)
       (initial_model G)"
  by (simp add: build_model_def planned_constraints_def for_each_append one_color_loop_eq
      pack_loop_eq max_color_loop_eq split: sum.splits)

lemma build_model_Inr_iff:
  "build_model label distances G = Inr model
   \<longleftrightarrow> distinct (map fst (planned_constraints label G distances))
       \<and> model = expected_model label G distances"
  by (simp add: build_model_eq add_all_Inr_iff expected_model_def initial_model_def)

lemma built_constraints:
  assumes "build_model label distances G = Inr model"
  shows "constraints model
         = one_color_part label G @ pack_part label G distances @ max_color_part label G"
    and "objective model = var_expr (z_var G)"
    and "problem_sense model = LpMinimize"
  using assms
  by (simp_all add: build_model_Inr_iff expected_model_def initial_model_def
      planned_constraints_def)

section \<open>The model, its solutions and their decoding\<close>

lemma constraints_expected_model:
  "constraints (expected_model label G distances)
   = one_color_part label G @ pack_part label G distances @ max_color_part label G"
  by (simp add: expected_model_def planned_constraints_def)

lemma objective_expected_model:
  "objective (expected_model label G distances) = var_expr (z_var G)"
  by (simp add: expected_model_def initial_model_def)

lemma problem_sense_expected_model:
  "problem_sense (expected_model label G distances) = LpMinimize"
  by (simp add: expected_model_def initial_model_def)

lemma built_is_expected:
  "build_model label distances G = Inr model \<Longrightarrow> model = expected_model label G distances"
  by (simp add: build_model_Inr_iff)

lemma set_range1 [simp]: "set (range1 k) = {1..k}"
  by (auto simp: range1_def)

lemma distinct_range1 [simp]: "distinct (range1 k)"
  by (simp add: range1_def)

lemma combinations2_subset:
  "(v, u) \<in> set (combinations2 xs) \<Longrightarrow> v \<in> set xs \<and> u \<in> set xs"
  by (induction xs) auto

lemma combinations2_total:
  "v \<in> set xs \<Longrightarrow> u \<in> set xs \<Longrightarrow> v \<noteq> u
   \<Longrightarrow> (v, u) \<in> set (combinations2 xs) \<or> (u, v) \<in> set (combinations2 xs)"
  by (induction xs) auto

lemma first_color_Some_iff:
  "sorted_wrt (<) cs \<Longrightarrow>
   first_color val v cs = Some i
   \<longleftrightarrow> i \<in> set cs \<and> val (X v i) > 1/2 \<and> (\<forall>j \<in> set cs. j < i \<longrightarrow> val (X v j) \<le> 1/2)"
proof (induction cs)
  case Nil
  show ?case by simp
next
  case (Cons c cs)
  then have later: "\<forall>j \<in> set cs. c < j" and sorted: "sorted_wrt (<) cs" by simp_all
  show ?case
  proof (cases "val (X v c) > 1/2")
    case True
    with later show ?thesis by (auto simp: x_var_def)
  next
    case False
    with Cons.IH [OF sorted] later show ?thesis by (auto simp: x_var_def)
  qed
qed

lemma sorted_range1 [simp]: "sorted_wrt (<) (range1 k)"
  unfolding range1_def by (rule sorted_wrt_upt)

lemma extract_colors_apply:
  "extract_colors val k vs m v
   = (if v \<in> set vs
      then (case first_color val v (range1 k) of None \<Rightarrow> m v | Some i \<Rightarrow> Some i)
      else m v)"
  by (induction vs arbitrary: m) (auto split: option.splits)

lemma in_one_color_part:
  "nc \<in> set (one_color_part label G)
   \<longleftrightarrow> (\<exists>v \<in> set (nodes G). nc = one_color_constraint label (number_of_nodes G) v)"
  by (auto simp: one_color_part_def)

lemma in_pack_part:
  "nc \<in> set (pack_part label G distances)
   \<longleftrightarrow> (\<exists>v u i d. nc = pack_constraint label v u i \<and> i \<in> {1..number_of_nodes G}
         \<and> (v, u) \<in> set (combinations2 (nodes G)) \<and> distances v u = Some d \<and> d \<le> i)"
  (is "?L \<longleftrightarrow> ?R")
proof
  assume ?L
  then obtain i p where ip: "i \<in> {1..number_of_nodes G}" "p \<in> set (combinations2 (nodes G))"
      "close_enough distances i p" "nc = (case p of (v, u) \<Rightarrow> pack_constraint label v u i)"
    by (auto simp: pack_part_def)
  obtain v u where p: "p = (v, u)" by (cases p)
  from ip(3) p obtain d where "distances v u = Some d" "d \<le> i"
    by (auto simp: close_enough_def split: option.splits)
  with ip p show ?R by auto
next
  assume ?R
  then obtain v u i d where h: "nc = pack_constraint label v u i" "i \<in> {1..number_of_nodes G}"
      "(v, u) \<in> set (combinations2 (nodes G))" "distances v u = Some d" "d \<le> i"
    by blast
  then have "close_enough distances i (v, u)" by (simp add: close_enough_def)
  with h have "nc \<in> (\<lambda>(v, u). pack_constraint label v u i)
                  ` {p \<in> set (combinations2 (nodes G)). close_enough distances i p}"
    by force
  with h(2) show ?L by (auto simp: pack_part_def)
qed

lemma in_max_color_part:
  "nc \<in> set (max_color_part label G)
   \<longleftrightarrow> (\<exists>v \<in> set (nodes G). \<exists>i \<in> {1..number_of_nodes G}. nc = max_color_constraint label G v i)"
  by (auto simp: max_color_part_def)

lemma in_constraints_expected_model:
  "nc \<in> set (constraints (expected_model label G distances))
   \<longleftrightarrow> nc \<in> set (one_color_part label G) \<or> nc \<in> set (pack_part label G distances)
       \<or> nc \<in> set (max_color_part label G)"
  by (simp add: constraints_expected_model)

lemma one_color_in_model:
  "v \<in> set (nodes G) \<Longrightarrow>
   one_color_constraint label (number_of_nodes G) v \<in> set (constraints (expected_model label G distances))"
  by (auto simp: in_constraints_expected_model in_one_color_part)

lemma pack_in_model:
  "(v, u) \<in> set (combinations2 (nodes G)) \<Longrightarrow> i \<in> {1..number_of_nodes G} \<Longrightarrow>
   distances v u = Some d \<Longrightarrow> d \<le> i \<Longrightarrow>
   pack_constraint label v u i \<in> set (constraints (expected_model label G distances))"
  unfolding in_constraints_expected_model in_pack_part by blast

lemma max_color_in_model:
  "v \<in> set (nodes G) \<Longrightarrow> i \<in> {1..number_of_nodes G} \<Longrightarrow>
   max_color_constraint label G v i \<in> set (constraints (expected_model label G distances))"
  unfolding in_constraints_expected_model in_max_color_part by blast

lemma eval_lpSum:
  "eval_expr val (lpSum ys) = sum_list (map (\<lambda>y. val (name y)) ys)"
  by (simp add: eval_expr_def lpSum_def comp_def)

lemma sum_list_range1:
  "sum_list (map f (range1 k)) = sum f {1..k}"
proof -
  have "sum_list (map f (range1 k)) = sum f (set (range1 k))"
    by (rule sum_list_distinct_conv_sum_set) simp
  then show ?thesis by simp
qed

lemma satisfies_one_color:
  "satisfies val (snd (one_color_constraint label k v)) \<longleftrightarrow> (\<Sum>i = 1..k. val (X v i)) = 1"
proof -
  have "sum_list (map (\<lambda>y. val (name y)) (map (x_var v) (range1 k)))
        = sum_list (map (\<lambda>i. val (X v i)) (range1 k))"
    by (simp add: comp_def x_var_def)
  then show ?thesis
    by (simp add: satisfies_def one_color_constraint_def eval_lpSum sum_list_range1)
      (simp add: eval_expr_def const_expr_def)
qed

lemma satisfies_pack:
  "satisfies val (snd (pack_constraint label v u i)) \<longleftrightarrow> val (X v i) + val (X u i) \<le> 1"
  by (simp add: satisfies_def pack_constraint_def eval_expr_def add_vars_def const_expr_def
      x_var_def)

lemma satisfies_max_color:
  "satisfies val (snd (max_color_constraint label G v i)) \<longleftrightarrow> real i * val (X v i) \<le> val Z"
  by (simp add: satisfies_def max_color_constraint_def eval_expr_def scale_var_def var_expr_def
      x_var_def z_var_def)

lemma pack_constraint_eq:
  "(n, snd (pack_constraint label v u i)) = pack_constraint label a b j
   \<longleftrightarrow> a = v \<and> b = u \<and> j = i \<and> n = pack_name label v u i"
  by (auto simp: pack_constraint_def add_vars_def x_var_def)

lemma pack_constraint_in_model_iff:
  "(n, snd (pack_constraint label v u i)) \<in> set (constraints (expected_model label G distances))
   \<longleftrightarrow> n = pack_name label v u i \<and> i \<in> {1..number_of_nodes G}
       \<and> (v, u) \<in> set (combinations2 (nodes G))
       \<and> (\<exists>d. distances v u = Some d \<and> d \<le> i)"
proof -
  have a: "(n, snd (pack_constraint label v u i)) \<notin> set (one_color_part label G)"
    by (auto simp: in_one_color_part one_color_constraint_def pack_constraint_def)
  have b: "(n, snd (pack_constraint label v u i)) \<notin> set (max_color_part label G)"
    by (auto simp: in_max_color_part max_color_constraint_def pack_constraint_def
        var_expr_def const_expr_def)
  show ?thesis
    unfolding in_constraints_expected_model using a b
    by (auto simp: in_pack_part pack_constraint_eq)
qed

lemma x_dict_keys:
  "map fst (x_dict G) = List.product (nodes G) (range1 (number_of_nodes G))"
proof -
  have "map fst (concat (map (\<lambda>v. map (\<lambda>i. ((v, i), x_var v i)) cs) vs)) = List.product vs cs"
    for vs :: "'a list" and cs
    by (induction vs) (simp_all add: comp_def)
  then show ?thesis by (simp add: x_dict_def)
qed

lemma in_x_dict:
  "(p, y) \<in> set (x_dict G)
   \<longleftrightarrow> fst p \<in> set (nodes G) \<and> snd p \<in> {1..number_of_nodes G} \<and> y = x_var (fst p) (snd p)"
  by (cases p) (force simp: x_dict_def)

lemma set_variables:
  "set (variables m)
   = fst ` set (lin_terms (objective m))
     \<union> (\<Union>nc \<in> set (constraints m).
          fst ` set (lin_terms (lhs (snd nc))) \<union> fst ` set (lin_terms (rhs (snd nc))))"
  by (simp add: variables_def case_prod_beta)

lemma set_variables_expected_model:
  "set (variables (expected_model label G distances)) = insert (z_var G) (snd ` set (x_dict G))"
  (is "?L = ?R")
proof
  show "?L \<subseteq> ?R"
  proof
    fix y assume "y \<in> ?L"
    then have "y = z_var G
      \<or> (\<exists>n c. (n, c) \<in> set (constraints (expected_model label G distances))
          \<and> (y \<in> fst ` set (lin_terms (lhs c)) \<or> y \<in> fst ` set (lin_terms (rhs c))))"
      unfolding set_variables by (force simp: objective_expected_model var_expr_def)
    then consider "y = z_var G"
      | n c where "(n, c) \<in> set (constraints (expected_model label G distances))"
          "y \<in> fst ` set (lin_terms (lhs c)) \<or> y \<in> fst ` set (lin_terms (rhs c))"
      by blast
    then show "y \<in> ?R"
    proof cases
      case 1 then show ?thesis by simp
    next
      case 2
      from 2(1) consider "(n, c) \<in> set (one_color_part label G)" | "(n, c) \<in> set (pack_part label G distances)"
        | "(n, c) \<in> set (max_color_part label G)"
        by (auto simp: in_constraints_expected_model)
      then show ?thesis
      proof cases
        case 1
        with 2(2) obtain v i where "v \<in> set (nodes G)" "i \<in> {1..number_of_nodes G}" "y = x_var v i"
          by (auto simp: in_one_color_part one_color_constraint_def lpSum_def const_expr_def)
        then have "((v, i), y) \<in> set (x_dict G)" by (simp add: in_x_dict)
        then show ?thesis by force
      next
        case 2
        then obtain v u i where h: "(v, u) \<in> set (combinations2 (nodes G))"
            "i \<in> {1..number_of_nodes G}" "(n, c) = pack_constraint label v u i"
          by (auto simp: in_pack_part)
        with \<open>y \<in> fst ` set (lin_terms (lhs c)) \<or> y \<in> fst ` set (lin_terms (rhs c))\<close>
        have "y = x_var v i \<or> y = x_var u i"
          by (auto simp: pack_constraint_def add_vars_def const_expr_def)
        moreover from h(1) have "v \<in> set (nodes G)" "u \<in> set (nodes G)"
          by (auto dest: combinations2_subset)
        ultimately have "((v, i), y) \<in> set (x_dict G) \<or> ((u, i), y) \<in> set (x_dict G)"
          using h(2) by (auto simp: in_x_dict)
        then show ?thesis by force
      next
        case 3
        then obtain v i where h: "v \<in> set (nodes G)" "i \<in> {1..number_of_nodes G}"
            "(n, c) = max_color_constraint label G v i"
          by (auto simp: in_max_color_part)
        with \<open>y \<in> fst ` set (lin_terms (lhs c)) \<or> y \<in> fst ` set (lin_terms (rhs c))\<close>
        have "y = x_var v i \<or> y = z_var G"
          by (auto simp: max_color_constraint_def scale_var_def var_expr_def)
        moreover from h have "((v, i), x_var v i) \<in> set (x_dict G)" by (simp add: in_x_dict)
        ultimately show ?thesis by force
      qed
    qed
  qed
next
  show "?R \<subseteq> ?L"
  proof
    fix y assume "y \<in> ?R"
    then consider "y = z_var G" | p where "(p, y) \<in> set (x_dict G)" by force
    then show "y \<in> ?L"
    proof cases
      case 1
      then show ?thesis by (simp add: set_variables objective_expected_model var_expr_def)
    next
      case 2
      then have h: "fst p \<in> set (nodes G)" "snd p \<in> {1..number_of_nodes G}"
          "y = x_var (fst p) (snd p)"
        by (simp_all add: in_x_dict)
      have "one_color_constraint label (number_of_nodes G) (fst p)
            \<in> set (constraints (expected_model label G distances))"
        using h(1) by (rule one_color_in_model)
      moreover have "y \<in> fst ` set (lin_terms (lhs (snd (one_color_constraint label (number_of_nodes G) (fst p)))))"
        using h(2,3) by (force simp: one_color_constraint_def lpSum_def)
      ultimately show ?thesis
        unfolding set_variables by blast
    qed
  qed
qed

lemma feasible_constraint:
  "feasible m val \<Longrightarrow> nc \<in> set (constraints m) \<Longrightarrow> satisfies val (snd nc)"
  by (auto simp: feasible_def list_all_iff)

lemma feasible_variable:
  "feasible m val \<Longrightarrow> y \<in> set (variables m) \<Longrightarrow> in_domain val y"
  by (simp add: feasible_def list_all_iff)

lemma feasible_one_color:
  assumes "feasible (expected_model label G distances) val" and "v \<in> set (nodes G)"
  shows "(\<Sum>i = 1..number_of_nodes G. val (X v i)) = 1"
  using feasible_constraint [OF assms(1) one_color_in_model [OF assms(2)]]
  by (simp add: satisfies_one_color)

lemma feasible_pack:
  assumes "feasible (expected_model label G distances) val"
    and "(v, u) \<in> set (combinations2 (nodes G))" and "i \<in> {1..number_of_nodes G}"
    and "distances v u = Some d" and "d \<le> i"
  shows "val (X v i) + val (X u i) \<le> 1"
proof -
  have "pack_constraint label v u i \<in> set (constraints (expected_model label G distances))"
    using assms(2-5) by (rule pack_in_model)
  from feasible_constraint [OF assms(1) this] show ?thesis
    by (simp add: satisfies_pack)
qed

lemma feasible_binary:
  assumes "feasible (expected_model label G distances) val"
    and "v \<in> set (nodes G)" and "i \<in> {1..number_of_nodes G}"
  shows "val (X v i) = 0 \<or> val (X v i) = 1"
proof -
  from assms(2,3) have "((v, i), x_var v i) \<in> set (x_dict G)" by (simp add: in_x_dict)
  then have "x_var v i \<in> snd ` set (x_dict G)" by force
  then have "x_var v i \<in> set (variables (expected_model label G distances))"
    by (simp add: set_variables_expected_model)
  from feasible_variable [OF assms(1) this] show ?thesis
    by (simp add: in_domain_def x_var_def)
qed

lemma binary_sum_one:
  fixes f :: "nat \<Rightarrow> real"
  assumes fin: "finite S" and bin: "\<forall>i \<in> S. f i = 0 \<or> f i = 1" and one: "sum f S = 1"
  shows "\<exists>i \<in> S. f i = 1 \<and> (\<forall>j \<in> S. j \<noteq> i \<longrightarrow> f j = 0)"
proof -
  have "\<exists>i \<in> S. f i = 1"
  proof (rule ccontr)
    assume "\<not> (\<exists>i \<in> S. f i = 1)"
    with bin have "\<forall>i \<in> S. f i = 0" by blast
    then have "sum f S = 0" by simp
    with one show False by simp
  qed
  then obtain i where i: "i \<in> S" "f i = 1" by blast
  have "sum f S = f i + sum f (S - {i})"
    using fin i(1) by (rule sum.remove)
  with one i(2) have rest: "sum f (S - {i}) = 0" by simp
  have nonneg: "\<forall>j \<in> S - {i}. 0 \<le> f j" using bin by force
  have "sum f (S - {i}) = 0 \<longleftrightarrow> (\<forall>j \<in> S - {i}. f j = 0)"
  proof (rule sum_nonneg_eq_0_iff)
    show "finite (S - {i})" using fin by simp
    show "0 \<le> f j" if "j \<in> S - {i}" for j using nonneg that by blast
  qed
  with rest have "\<forall>j \<in> S - {i}. f j = 0" by simp
  with i show ?thesis by blast
qed

lemma extract_colors_empty:
  "extract_colors val k vs Map.empty v
   = (if v \<in> set vs then first_color val v (range1 k) else None)"
  by (simp add: extract_colors_apply split: option.splits)

lemma first_color_range1:
  "first_color val v (range1 k) = Some i
   \<longleftrightarrow> i \<in> {1..k} \<and> val (X v i) > 0.5 \<and> (\<forall>j \<in> {1..<i}. \<not> val (X v j) > 0.5)"
  using first_color_Some_iff [of "range1 k" val v i]
  by (auto simp: not_less)

lemma feasible_unique_color:
  assumes feas: "feasible (expected_model label G distances) val" and v: "v \<in> set (nodes G)"
  shows "\<exists>i \<in> {1..number_of_nodes G}.
           first_color val v (range1 (number_of_nodes G)) = Some i
           \<and> val (X v i) = 1 \<and> (\<forall>j \<in> {1..number_of_nodes G}. j \<noteq> i \<longrightarrow> val (X v j) = 0)"
proof -
  let ?k = "number_of_nodes G"
  have "\<exists>i \<in> {1..?k}. val (X v i) = 1 \<and> (\<forall>j \<in> {1..?k}. j \<noteq> i \<longrightarrow> val (X v j) = 0)"
  proof (rule binary_sum_one)
    show "finite {1..?k}" by simp
    show "\<forall>i \<in> {1..?k}. val (X v i) = 0 \<or> val (X v i) = 1"
      using feasible_binary [OF feas v] by blast
    show "(\<Sum>i = 1..?k. val (X v i)) = 1"
      using feas v by (rule feasible_one_color)
  qed
  then obtain i where i: "i \<in> {1..?k}" "val (X v i) = 1"
      "\<forall>j \<in> {1..?k}. j \<noteq> i \<longrightarrow> val (X v j) = 0"
    by blast
  have "\<forall>j \<in> {1..<i}. \<not> val (X v j) > 0.5"
  proof
    fix j assume "j \<in> {1..<i}"
    with i(1) have "j \<in> {1..?k}" "j \<noteq> i" by auto
    with i(3) have "val (X v j) = 0" by blast
    then show "\<not> val (X v j) > 0.5" by simp
  qed
  with i(1,2) have "first_color val v (range1 ?k) = Some i"
    by (simp add: first_color_range1)
  with i show ?thesis by blast
qed

lemma solve_optimal:
  assumes "build_model label distances G = Inr model"
    and "solver model = (LpStatusOptimal, val)"
  shows "solve_packing_coloring label solver distances G
         = Inr (Some (extract_colors val (number_of_nodes G) (nodes G) Map.empty), Some (val Z))"
  using assms by (simp add: solve_packing_coloring_def z_var_def)

lemma solve_not_optimal:
  assumes "build_model label distances G = Inr model"
    and "fst (solver model) \<noteq> LpStatusOptimal"
  shows "solve_packing_coloring label solver distances G = Inr (None, None)"
  using assms by (cases "solver model") (simp add: solve_packing_coloring_def)

subsection \<open>What a built model contains\<close>

lemma built_one_color_constraint:
  assumes "build_model label distances G = Inr model" and "v \<in> set (nodes G)"
  shows "one_color_constraint label (number_of_nodes G) v \<in> set (constraints model)
    \<and> sense (snd (one_color_constraint label (number_of_nodes G) v)) = LpConstraintEQ
    \<and> (\<forall>val. satisfies val (snd (one_color_constraint label (number_of_nodes G) v))
              \<longleftrightarrow> (\<Sum>i = 1..number_of_nodes G. val (X v i)) = 1)"
  using assms(2) one_color_in_model [of v G label distances] built_is_expected [OF assms(1)]
  by (simp add: satisfies_one_color) (simp add: one_color_constraint_def)

lemma built_pack_constraint:
  assumes "build_model label distances G = Inr model"
    and "\<And>a b. distances a b = distances b a"
    and "v \<in> set (nodes G)" and "u \<in> set (nodes G)" and "v \<noteq> u"
    and "i \<in> {1..number_of_nodes G}" and "distances v u = Some d" and "d \<le> i"
  shows "(pack_constraint label v u i \<in> set (constraints model)
          \<or> pack_constraint label u v i \<in> set (constraints model))
    \<and> (\<forall>val. satisfies val (snd (pack_constraint label v u i))
              \<longleftrightarrow> val (X v i) + val (X u i) \<le> 1)
    \<and> (\<forall>val. satisfies val (snd (pack_constraint label u v i))
              \<longleftrightarrow> val (X v i) + val (X u i) \<le> 1)"
proof -
  have m: "model = expected_model label G distances"
    using assms(1) by (rule built_is_expected)
  from assms(7) have d': "distances u v = Some d" using assms(2) [of u v] by simp
  from combinations2_total [OF assms(3,4,5)]
  have "pack_constraint label v u i \<in> set (constraints model)
        \<or> pack_constraint label u v i \<in> set (constraints model)"
  proof
    assume "(v, u) \<in> set (combinations2 (nodes G))"
    then have "pack_constraint label v u i
                 \<in> set (constraints (expected_model label G distances))"
      using assms(6,7,8) by (rule pack_in_model)
    then show ?thesis unfolding m by blast
  next
    assume "(u, v) \<in> set (combinations2 (nodes G))"
    then have "pack_constraint label u v i
                 \<in> set (constraints (expected_model label G distances))"
      using assms(6) d' assms(8) by (rule pack_in_model)
    then show ?thesis unfolding m by blast
  qed
  then show ?thesis by (simp add: satisfies_pack add.commute)
qed

lemma built_no_pack_constraint:
  assumes "build_model label distances G = Inr model"
    and "distances v u = None" and "distances u v = None"
  shows "(n, snd (pack_constraint label v u i)) \<notin> set (constraints model)
    \<and> (n, snd (pack_constraint label u v i)) \<notin> set (constraints model)"
  using assms(2,3) built_is_expected [OF assms(1)]
  by (simp add: pack_constraint_in_model_iff)

lemma built_max_color_constraint:
  assumes "build_model label distances G = Inr model"
    and "v \<in> set (nodes G)" and "i \<in> {1..number_of_nodes G}"
  shows "max_color_constraint label G v i \<in> set (constraints model)
    \<and> (\<forall>val. satisfies val (snd (max_color_constraint label G v i))
              \<longleftrightarrow> real i * val (X v i) \<le> val (name (z_var G)))
    \<and> problem_sense model = LpMinimize
    \<and> objective model = var_expr (z_var G)"
  using assms(2,3) max_color_in_model [of v G i label distances]
    built_is_expected [OF assms(1)]
  by (simp add: satisfies_max_color problem_sense_expected_model objective_expected_model)
    (simp add: z_var_def)

section \<open>The examples\<close>

lemma path3_built:
  "build_model str_nat path3_distances path3 = Inr (expected_model str_nat path3 path3_distances)"
proof -
  have "distinct (map fst (planned_constraints str_nat path3 path3_distances))"
    by code_simp
  then show ?thesis by (simp add: build_model_Inr_iff)
qed

lemma path3_feasible:
  "feasible (expected_model str_nat path3 path3_distances) path3_values"
  by code_simp

lemma path3_solver_optimal:
  "path3_solver (expected_model str_nat path3 path3_distances) = (LpStatusOptimal, path3_values)"
  by (simp add: path3_solver_def)

lemma path3_distances_sym: "path3_distances a b = path3_distances b a"
  by (auto simp: path3_distances_def)

lemma path3_nodes: "set (nodes path3) = {1, 2, 3}" "number_of_nodes path3 = 3"
  by (simp_all add: path3_def number_of_nodes_def)

lemma path3_decoded:
  "map (extract_colors path3_values (number_of_nodes path3) (nodes path3) Map.empty) [1, 2, 3, 4]
   = [Some 1, Some 2, Some 1, None]"
  by code_simp

lemma path3_result:
  assumes "solve_packing_coloring str_nat path3_solver path3_distances path3
           = Inr (Some colors, z)"
  shows "colors 1 = Some 1 \<and> colors 2 = Some 2 \<and> colors 3 = Some 1 \<and> colors 4 = None
       \<and> z = Some 2"
proof -
  from solve_optimal [of str_nat path3_distances path3 _ path3_solver path3_values,
      OF path3_built path3_solver_optimal] assms
  have "colors = extract_colors path3_values (number_of_nodes path3) (nodes path3) Map.empty"
    and "z = Some 2"
    by simp_all
  with path3_decoded show ?thesis by simp
qed

lemma triangle_built:
  "build_model str_nat unit_distances triangle
   = Inr (expected_model str_nat triangle unit_distances)"
proof -
  have "distinct (map fst (planned_constraints str_nat triangle unit_distances))"
    by code_simp
  then show ?thesis by (simp add: build_model_Inr_iff)
qed

subsection \<open>The colours of a returned mapping\<close>

lemma returned_colors_are_positive:
  assumes "solve_packing_coloring label solver distances G = Inr (Some colors, z)"
    and "colors v = Some c"
  shows "0 < c \<and> c \<le> number_of_nodes G \<and> v \<in> set (nodes G)"
proof (cases "build_model label distances G")
  case (Inl e)
  with assms(1) show ?thesis by (simp add: solve_packing_coloring_def)
next
  case (Inr model)
  obtain status val where sv: "solver model = (status, val)" by (cases "solver model")
  with Inr assms(1)
  have "colors = extract_colors val (number_of_nodes G) (nodes G) Map.empty"
    by (simp add: solve_packing_coloring_def split: if_splits)
  with assms(2) show ?thesis
    by (auto simp: extract_colors_empty first_color_range1 split: if_splits)
qed

section \<open>The claims\<close>

text \<open>
  C1. Packing property of a returned colouring. When the model is built, the solver reports
  \<open>LpStatusOptimal\<close> with values that are feasible for it, and the distance table is
  symmetric (the graph is undirected), any two distinct vertices that are returned with the
  same colour \<open>i\<close> and have a finite distance \<open>d\<close> satisfy \<open>i < d\<close>.
\<close>

theorem same_color_vertices_are_far_apart:
  assumes built: "build_model label distances G = Inr model"
    and opt: "solver model = (LpStatusOptimal, varValue)"
    and feasible: "feasible model varValue"
    and sym: "\<And>a b. distances a b = distances b a"
  shows "\<exists>colors z. solve_packing_coloring label solver distances G = Inr (Some colors, z)
      \<and> (\<forall>v u i d. v \<noteq> u \<and> colors v = Some i \<and> colors u = Some i \<and> distances v u = Some d
            \<longrightarrow> i < d)"
proof -
  let ?k = "number_of_nodes G"
  let ?colors = "extract_colors varValue ?k (nodes G) Map.empty"
  have ret: "solve_packing_coloring label solver distances G
             = Inr (Some ?colors, Some (varValue Z))"
    using built opt by (rule solve_optimal)
  have feas: "feasible (expected_model label G distances) varValue"
    using feasible built_is_expected [OF built] by simp
  have "i < d"
    if vu: "v \<noteq> u" and cv: "?colors v = Some i" and cu: "?colors u = Some i"
      and d: "distances v u = Some d"
    for v u i d
  proof (rule ccontr)
    assume "\<not> i < d"
    then have le: "d \<le> i" by simp
    from cv have v: "v \<in> set (nodes G)" and fv: "first_color varValue v (range1 ?k) = Some i"
      by (auto simp: extract_colors_empty split: if_splits)
    from cu have u: "u \<in> set (nodes G)" and fu: "first_color varValue u (range1 ?k) = Some i"
      by (auto simp: extract_colors_empty split: if_splits)
    from fv have i: "i \<in> {1..?k}" and xv: "varValue (X v i) > 0.5"
      by (simp_all add: first_color_range1)
    from fu have xu: "varValue (X u i) > 0.5"
      by (simp add: first_color_range1)
    from d have d': "distances u v = Some d" using sym [of u v] by simp
    from combinations2_total [OF v u vu]
    have "varValue (X v i) + varValue (X u i) \<le> 1"
    proof
      assume "(v, u) \<in> set (combinations2 (nodes G))"
      from feasible_pack [OF feas this i d le] show ?thesis .
    next
      assume "(u, v) \<in> set (combinations2 (nodes G))"
      from feasible_pack [OF feas this i d' le] show ?thesis by simp
    qed
    with xv xu show False by simp
  qed
  with ret show ?thesis by blast
qed

theorem same_color_vertices_are_far_apart_witness:
  "build_model str_nat path3_distances path3 = Inr (expected_model str_nat path3 path3_distances)
   \<and> path3_solver (expected_model str_nat path3 path3_distances)
       = (LpStatusOptimal, path3_values)
   \<and> feasible (expected_model str_nat path3 path3_distances) path3_values
   \<and> (\<forall>a b. path3_distances a b = path3_distances b a)
   \<and> (\<exists>colors z.
         solve_packing_coloring str_nat path3_solver path3_distances path3 = Inr (Some colors, z)
         \<and> (1::nat) \<noteq> 3 \<and> colors 1 = Some 1 \<and> colors 3 = Some 1
         \<and> path3_distances 1 3 = Some 2 \<and> (1::nat) < 2)"
proof -
  from same_color_vertices_are_far_apart
    [of str_nat path3_distances path3 _ path3_solver path3_values,
      OF path3_built path3_solver_optimal path3_feasible path3_distances_sym]
  obtain colors z where
    ret: "solve_packing_coloring str_nat path3_solver path3_distances path3
          = Inr (Some colors, z)"
    and far: "\<forall>v u i d. v \<noteq> u \<and> colors v = Some i \<and> colors u = Some i
                \<and> path3_distances v u = Some d \<longrightarrow> i < d"
    by blast
  have c: "colors 1 = Some 1" "colors 3 = Some 1"
    using path3_result [OF ret] by simp_all
  have d: "path3_distances 1 3 = Some 2"
    by (simp add: path3_distances_def)
  have "(1::nat) \<noteq> 3" by simp
  with far c d have "(1::nat) < 2" by blast
  with ret c d path3_built path3_solver_optimal path3_feasible path3_distances_sym
  show ?thesis by auto
qed

text \<open>
  C2. Packing constraints: for every colour \<open>i\<close> in \<open>[1, k]\<close> and every pair of distinct
  vertices at a finite distance \<open>d \<le> i\<close> the constraint \<open>x(v,i) + x(u,i) \<le> 1\<close> is to be
  added. The constraint is named \<^verbatim>\<open>f"Pack_{v}_{u}_color_{i}"\<close>, and two pairs can print to
  the same name. On the complete graph with the vertices \<open>a\<close>, \<open>a_b\<close>, \<open>b_c\<close>, \<open>c\<close> the
  OneColor loop succeeds, and the packing loop stops with PuLP's error at the pair
  \<open>(a_b, c)\<close> of colour 1, whose name the pair \<open>(a, b_c)\<close> has taken: that pair is at
  distance 1 and its constraint is not added.
\<close>

theorem pack_names_overlap:
  "unit_distances ''a_b'' ''c'' = Some (1::nat)
   \<and> one_color_loop (\<lambda>s. s) labelled_k4 (initial_model labelled_k4)
       = Inr ((initial_model labelled_k4)\<lparr>constraints := one_color_part (\<lambda>s. s) labelled_k4\<rparr>)
   \<and> pack_name (\<lambda>s. s) ''a'' ''b_c'' 1 = pack_name (\<lambda>s. s) ''a_b'' ''c'' 1
   \<and> pack_loop (\<lambda>s. s) labelled_k4 unit_distances
        ((initial_model labelled_k4)\<lparr>constraints := one_color_part (\<lambda>s. s) labelled_k4\<rparr>)
       = Inl (PulpError ''Pack_a_b_c_color_1'')"
  by code_simp

text \<open>
  C3. Exactly one colour: for every vertex \<open>v\<close> the model is to contain the equality
  constraint that the variables \<open>x(v,1), ..., x(v,k)\<close> sum to 1. The constraint is named
  \<^verbatim>\<open>f"OneColor_{v}"\<close>. On the graph with the two vertices \<open>1\<close> (a number) and \<open>'1'\<close> (a
  string) the second constraint has the name of the first, PuLP raises, and no model is
  built.
\<close>

theorem one_color_names_overlap:
  "one_color_name py_str (IntNode 1) = one_color_name py_str (StrNode ''1'')
   \<and> IntNode 1 \<noteq> StrNode ''1''
   \<and> one_color_loop py_str one_and_quoted_one (initial_model one_and_quoted_one)
       = Inl (PulpError ''OneColor_1'')
   \<and> build_model py_str unit_distances one_and_quoted_one = Inl (PulpError ''OneColor_1'')"
  by code_simp

text \<open>
  C4. Bound linkage and objective: for every vertex \<open>v\<close> and colour \<open>i\<close> in \<open>[1, k]\<close> the
  model is to contain \<open>i * x(v,i) \<le> z\<close>. On the complete graph with the vertices \<open>a\<close>,
  \<open>a_b\<close>, \<open>b_c\<close>, \<open>c\<close> the construction ends with PuLP's error in the packing loop, before
  the loop that adds these constraints is reached: the function raises and no model with a
  MaxColor constraint exists.
\<close>

theorem max_color_loop_not_reached:
  "build_model (\<lambda>s. s) unit_distances labelled_k4 = Inl (PulpError ''Pack_a_b_c_color_1'')
   \<and> solve_packing_coloring (\<lambda>s. s) (checking_solver (\<lambda>y. 1)) unit_distances labelled_k4
       = Inl (PulpError ''Pack_a_b_c_color_1'')"
proof -
  have "build_model (\<lambda>s. s) unit_distances labelled_k4
        = Inl (PulpError ''Pack_a_b_c_color_1'')"
    by code_simp
  then show ?thesis by (simp add: solve_packing_coloring_def)
qed

text \<open>
  C5. Decoding. When the model is built and the solver reports \<open>LpStatusOptimal\<close>, a vertex
  \<open>v\<close> of the graph is returned with colour \<open>i\<close> exactly when \<open>i\<close> is the smallest colour in
  \<open>[1, k]\<close> whose variable \<open>x(v,i)\<close> has a value above 0.5, and nothing else is in the
  mapping. The colours after \<open>i\<close> play no role: another answer of the solver that agrees on
  \<open>x(v,1), ..., x(v,i)\<close> gives \<open>v\<close> the same colour.
\<close>

theorem decoding_takes_first_color:
  assumes built: "build_model label distances G = Inr model"
    and opt: "solver model = (LpStatusOptimal, varValue)"
  shows "\<exists>colors z. solve_packing_coloring label solver distances G = Inr (Some colors, z)
      \<and> (\<forall>v. v \<notin> set (nodes G) \<longrightarrow> colors v = None)
      \<and> (\<forall>v \<in> set (nodes G). \<forall>i.
            colors v = Some i
            \<longleftrightarrow> i \<in> {1..number_of_nodes G} \<and> varValue (X v i) > 0.5
                \<and> (\<forall>j \<in> {1..<i}. \<not> varValue (X v j) > 0.5))
      \<and> (\<forall>v \<in> set (nodes G). \<forall>i varValue'.
            colors v = Some i \<and> (\<forall>j \<in> {1..i}. varValue' (X v j) = varValue (X v j))
            \<longrightarrow> (\<exists>colors' z'.
                   solve_packing_coloring label (\<lambda>model. (LpStatusOptimal, varValue'))
                     distances G
                     = Inr (Some colors', z')
                   \<and> colors' v = Some i))"
proof -
  let ?k = "number_of_nodes G"
  let ?colors = "extract_colors varValue ?k (nodes G) Map.empty"
  have ret: "solve_packing_coloring label solver distances G
             = Inr (Some ?colors, Some (varValue Z))"
    using built opt by (rule solve_optimal)
  have out: "\<forall>v. v \<notin> set (nodes G) \<longrightarrow> ?colors v = None"
    by (simp add: extract_colors_empty)
  have first: "\<forall>v \<in> set (nodes G). \<forall>i.
            ?colors v = Some i
            \<longleftrightarrow> i \<in> {1..?k} \<and> varValue (X v i) > 0.5
                \<and> (\<forall>j \<in> {1..<i}. \<not> varValue (X v j) > 0.5)"
    by (simp add: extract_colors_empty first_color_range1)
  have indep: "\<exists>colors' z'.
          solve_packing_coloring label (\<lambda>model. (LpStatusOptimal, varValue')) distances G
            = Inr (Some colors', z')
          \<and> colors' v = Some i"
    if v: "v \<in> set (nodes G)" and c: "?colors v = Some i"
      and same: "\<forall>j \<in> {1..i}. varValue' (X v j) = varValue (X v j)"
    for v i varValue'
  proof -
    from v c have fc: "first_color varValue v (range1 ?k) = Some i"
      by (simp add: extract_colors_empty)
    then have "i \<in> {1..?k}" "varValue (X v i) > 0.5"
        "\<forall>j \<in> {1..<i}. \<not> varValue (X v j) > 0.5"
      by (simp_all add: first_color_range1)
    with same have "i \<in> {1..?k} \<and> varValue' (X v i) > 0.5
        \<and> (\<forall>j \<in> {1..<i}. \<not> varValue' (X v j) > 0.5)"
      by auto
    then have "first_color varValue' v (range1 ?k) = Some i"
      using first_color_range1 [of varValue' v ?k i] by blast
    with v have "extract_colors varValue' ?k (nodes G) Map.empty v = Some i"
      by (simp add: extract_colors_empty)
    moreover have "solve_packing_coloring label (\<lambda>model. (LpStatusOptimal, varValue'))
          distances G
        = Inr (Some (extract_colors varValue' ?k (nodes G) Map.empty), Some (varValue' Z))"
      using built by (rule solve_optimal) simp
    ultimately show ?thesis by blast
  qed
  from ret out first indep show ?thesis by blast
qed

theorem decoding_takes_first_color_witness:
  "build_model str_nat path3_distances path3 = Inr (expected_model str_nat path3 path3_distances)
   \<and> (\<lambda>model. (LpStatusOptimal, fractional_values)) (expected_model str_nat path3 path3_distances)
       = (LpStatusOptimal, fractional_values)
   \<and> 1 \<in> set (nodes path3) \<and> 2 \<in> {1..number_of_nodes path3}
   \<and> fractional_values (X 1 2) > 0.5 \<and> fractional_values (X 1 3) > 0.5
   \<and> (\<exists>colors z.
         solve_packing_coloring str_nat (\<lambda>model. (LpStatusOptimal, fractional_values))
           path3_distances path3
           = Inr (Some colors, z)
         \<and> colors 1 = Some 2 \<and> colors 4 = None)"
proof -
  have opt: "(\<lambda>model. (LpStatusOptimal, fractional_values))
               (expected_model str_nat path3 path3_distances)
     = (LpStatusOptimal, fractional_values)"
    by simp
  from decoding_takes_first_color
    [of str_nat path3_distances path3 _ "\<lambda>model. (LpStatusOptimal, fractional_values)"
      fractional_values, OF path3_built opt]
  obtain colors z where
    ret: "solve_packing_coloring str_nat (\<lambda>model. (LpStatusOptimal, fractional_values))
            path3_distances path3
           = Inr (Some colors, z)"
    and out: "\<forall>v. v \<notin> set (nodes path3) \<longrightarrow> colors v = None"
    and first: "\<forall>v \<in> set (nodes path3). \<forall>i.
            colors v = Some i
            \<longleftrightarrow> i \<in> {1..number_of_nodes path3} \<and> fractional_values (X v i) > 0.5
                \<and> (\<forall>j \<in> {1..<i}. \<not> fractional_values (X v j) > 0.5)"
    by blast
  have n1: "1 \<in> set (nodes path3)" and n4: "4 \<notin> set (nodes path3)"
    and k: "2 \<in> {1..number_of_nodes path3}"
    by (simp_all add: path3_nodes)
  have big: "fractional_values (X 1 2) > 0.5" "fractional_values (X 1 3) > 0.5"
    by simp_all
  have small: "\<forall>j \<in> {1..<2::nat}. \<not> fractional_values (X 1 j) > 0.5"
    by auto
  from first n1
  have "colors 1 = Some 2
        \<longleftrightarrow> 2 \<in> {1..number_of_nodes path3} \<and> fractional_values (X 1 2) > 0.5
            \<and> (\<forall>j \<in> {1..<2}. \<not> fractional_values (X 1 j) > 0.5)"
    by blast
  with k big(1) small have c1: "colors 1 = Some 2" by blast
  from out n4 have c4: "colors 4 = None" by blast
  from path3_built opt n1 k big ret c1 c4 show ?thesis by blast
qed

text \<open>
  C6. Every vertex is coloured once. When the model is built and the solver reports
  \<open>LpStatusOptimal\<close> with values that are feasible for it, the keys of the returned mapping
  are exactly the vertices of the graph, and the colour of a vertex is the only colour whose
  variable is 1 (all its other colour variables are 0).
\<close>

theorem every_vertex_gets_one_color:
  assumes built: "build_model label distances G = Inr model"
    and opt: "solver model = (LpStatusOptimal, varValue)"
    and feasible: "feasible model varValue"
  shows "\<exists>colors z. solve_packing_coloring label solver distances G = Inr (Some colors, Some z)
      \<and> dom colors = set (nodes G)
      \<and> (\<forall>v \<in> set (nodes G). \<exists>i \<in> {1..number_of_nodes G}.
            colors v = Some i \<and> varValue (X v i) = 1
            \<and> (\<forall>j \<in> {1..number_of_nodes G}. j \<noteq> i \<longrightarrow> varValue (X v j) = 0))"
proof -
  let ?k = "number_of_nodes G"
  let ?colors = "extract_colors varValue ?k (nodes G) Map.empty"
  have ret: "solve_packing_coloring label solver distances G
             = Inr (Some ?colors, Some (varValue Z))"
    using built opt by (rule solve_optimal)
  have feas: "feasible (expected_model label G distances) varValue"
    using feasible built_is_expected [OF built] by simp
  have each: "\<forall>v \<in> set (nodes G). \<exists>i \<in> {1..?k}.
            ?colors v = Some i \<and> varValue (X v i) = 1
            \<and> (\<forall>j \<in> {1..?k}. j \<noteq> i \<longrightarrow> varValue (X v j) = 0)"
    using feasible_unique_color [OF feas] by (simp add: extract_colors_empty)
  have "dom ?colors = set (nodes G)"
  proof
    show "dom ?colors \<subseteq> set (nodes G)"
      by (auto simp: extract_colors_empty split: if_splits)
    show "set (nodes G) \<subseteq> dom ?colors"
      using each by blast
  qed
  with ret each show ?thesis by blast
qed

theorem every_vertex_gets_one_color_witness:
  "build_model str_nat path3_distances path3 = Inr (expected_model str_nat path3 path3_distances)
   \<and> path3_solver (expected_model str_nat path3 path3_distances)
       = (LpStatusOptimal, path3_values)
   \<and> feasible (expected_model str_nat path3 path3_distances) path3_values
   \<and> (\<exists>colors z.
         solve_packing_coloring str_nat path3_solver path3_distances path3
           = Inr (Some colors, Some z)
        \<and> dom colors = {1, 2, 3}
        \<and> colors 1 = Some 1 \<and> colors 2 = Some 2 \<and> colors 3 = Some 1)"
proof -
  from every_vertex_gets_one_color
    [of str_nat path3_distances path3 _ path3_solver path3_values,
      OF path3_built path3_solver_optimal path3_feasible]
  obtain colors z where
    ret: "solve_packing_coloring str_nat path3_solver path3_distances path3
          = Inr (Some colors, Some z)"
    and d: "dom colors = set (nodes path3)"
    by blast
  from path3_result [OF ret] ret d path3_built path3_solver_optimal path3_feasible
  show ?thesis by (auto simp: path3_nodes)
qed

text \<open>
  C7. No solution. Whenever the solver is called (the model is built) and the status it
  reports is not \<open>LpStatusOptimal\<close>, the result is \<open>(None, None)\<close>: neither a mapping,
  partial or not, nor a value.
\<close>

theorem not_optimal_returns_absence:
  assumes "build_model label distances G = Inr model"
    and "fst (solver model) \<noteq> LpStatusOptimal"
  shows "solve_packing_coloring label solver distances G = Inr (None, None)"
  using assms by (cases "solver model") (simp add: solve_packing_coloring_def)

theorem not_optimal_returns_absence_witness:
  "build_model str_nat path3_distances path3 = Inr (expected_model str_nat path3 path3_distances)
   \<and> fst ((\<lambda>m. (LpStatusInfeasible, \<lambda>y. 0)) (expected_model str_nat path3 path3_distances))
       \<noteq> LpStatusOptimal
   \<and> solve_packing_coloring str_nat (\<lambda>m. (LpStatusInfeasible, \<lambda>y. 0)) path3_distances path3
       = Inr (None, None)"
  using not_optimal_returns_absence
    [of str_nat path3_distances path3 _ "\<lambda>m. (LpStatusInfeasible, \<lambda>y. 0)", OF path3_built]
    path3_built
  by simp



text \<open>
  C9. Positive integers: the second returned value is to be a positive integer. The code
  returns \<^verbatim>\<open>z.varValue\<close> as the solver gave it; unlike the colours, which are read with a
  threshold, it is not rounded. On the triangle, whose packing chromatic number is 3, with a
  solver that reports \<open>LpStatusOptimal\<close> and the value 2.9999999999999574 for \<open>z\<close> (closer
  than one part in a billion to the integer), the colours returned are 1, 2, 3 and the second
  value is 2.9999999999999574, which is not an integer.
\<close>

theorem z_value_returned_unrounded:
  "build_model str_nat unit_distances triangle
     = Inr (expected_model str_nat triangle unit_distances)
   \<and> inexact_solver (expected_model str_nat triangle unit_distances)
       = (LpStatusOptimal, inexact_values)
   \<and> \<bar>inexact_values Z - 3\<bar> < 1 / 10 ^ 9
   \<and> (\<exists>colors.
         solve_packing_coloring str_nat inexact_solver unit_distances triangle
           = Inr (Some colors, Some 2.9999999999999574)
         \<and> colors 1 = Some 1 \<and> colors 2 = Some 2 \<and> colors 3 = Some 3)
   \<and> (\<forall>n::nat. real n \<noteq> 2.9999999999999574)"
proof -
  have opt: "inexact_solver (expected_model str_nat triangle unit_distances)
             = (LpStatusOptimal, inexact_values)"
    by (simp add: inexact_solver_def)
  have near: "\<bar>inexact_values Z - 3\<bar> < 1 / 10 ^ 9"
    by simp
  have dec: "map (extract_colors inexact_values (number_of_nodes triangle) (nodes triangle)
                    Map.empty) [1, 2, 3]
             = [Some 1, Some 2, Some 3]"
    by code_simp
  from solve_optimal [of str_nat unit_distances triangle _ inexact_solver inexact_values,
      OF triangle_built opt]
  have ret: "solve_packing_coloring str_nat inexact_solver unit_distances triangle
        = Inr (Some (extract_colors inexact_values (number_of_nodes triangle) (nodes triangle)
                       Map.empty),
               Some 2.9999999999999574)"
    by simp
  have no_nat: "real n \<noteq> 2.9999999999999574" for n :: nat
  proof (cases "n \<le> 2")
    case True
    then have "real n \<le> 2" by simp
    then show ?thesis by simp
  next
    case False
    then have "3 \<le> n" by simp
    then have "3 \<le> real n" by simp
    then show ?thesis by simp
  qed
  from triangle_built opt near dec ret no_nat show ?thesis by auto
qed

text \<open>
  C10. The empty graph. With no vertices the model is built, there is no \<open>x\<close> variable and
  no constraint, the only variable is \<open>z\<close> with lower bound 1 and upper bound 0, and no
  value assignment is feasible. The function returns \<open>(None, None)\<close> with every solver that,
  when it reports \<open>LpStatusOptimal\<close> for this model, gives values within the bounds of the
  variables up to a tolerance below one half.
\<close>

theorem empty_graph_has_no_solution:
  assumes "nodes G = []"
  shows "build_model label distances G = Inr (initial_model G)
      \<and> x_dict G = [] \<and> constraints (initial_model G) = []
      \<and> variables (initial_model G) = [z_var G]
      \<and> lowBound (z_var G) = Some 1 \<and> upBound (z_var G) = Some 0
      \<and> (\<forall>val. \<not> feasible (initial_model G) val)
      \<and> (\<forall>solver tol.
            tol < 1 / 2
            \<and> (\<forall>val. solver (initial_model G) = (LpStatusOptimal, val)
                   \<longrightarrow> list_all (within_bounds tol val) (variables (initial_model G)))
            \<longrightarrow> solve_packing_coloring label solver distances G = Inr (None, None))"
proof -
  have k: "number_of_nodes G = 0" using assms by (simp add: number_of_nodes_def)
  have planned: "planned_constraints label G distances = []"
    using assms
    by (simp add: planned_constraints_def one_color_part_def pack_part_def max_color_part_def
        k range1_def)
  have built: "build_model label distances G = Inr (initial_model G)"
    by (simp add: build_model_Inr_iff planned expected_model_def initial_model_def)
  have cs: "constraints (initial_model G) = []"
    by (simp add: initial_model_def)
  have vars: "variables (initial_model G) = [z_var G]"
    by (simp add: variables_def initial_model_def var_expr_def)
  have bounds: "lowBound (z_var G) = Some 1" "upBound (z_var G) = Some 0"
    by (simp_all add: z_var_def k)
  have infeasible: "\<not> feasible (initial_model G) val" for val
  proof
    assume "feasible (initial_model G) val"
    then have "in_domain val (z_var G)" by (simp add: feasible_def vars)
    then have "1 \<le> val Z \<and> val Z \<le> 0" by (simp add: in_domain_def z_var_def k)
    then show False by linarith
  qed
  have none: "solve_packing_coloring label solver distances G = Inr (None, None)"
    if tol: "tol < 1 / 2"
      and sound: "\<forall>val. solver (initial_model G) = (LpStatusOptimal, val)
                   \<longrightarrow> list_all (within_bounds tol val) (variables (initial_model G))"
    for solver and tol :: real
  proof -
    have "fst (solver (initial_model G)) \<noteq> LpStatusOptimal"
    proof
      assume "fst (solver (initial_model G)) = LpStatusOptimal"
      then have "solver (initial_model G)
                 = (LpStatusOptimal, snd (solver (initial_model G)))"
        by (metis prod.collapse)
      with sound have "within_bounds tol (snd (solver (initial_model G))) (z_var G)"
        by (simp add: vars)
      then have "1 - tol \<le> snd (solver (initial_model G)) Z"
          "snd (solver (initial_model G)) Z \<le> tol"
        by (simp_all add: within_bounds_def z_var_def k)
      with tol show False by simp
    qed
    with built show ?thesis by (rule solve_not_optimal)
  qed
  have x: "x_dict G = []" using assms by (simp add: x_dict_def)
  have inf_all: "\<forall>val. \<not> feasible (initial_model G) val"
    using infeasible by blast
  have none_all: "\<forall>solver tol.
            tol < 1 / 2
            \<and> (\<forall>val. solver (initial_model G) = (LpStatusOptimal, val)
                   \<longrightarrow> list_all (within_bounds tol val) (variables (initial_model G)))
            \<longrightarrow> solve_packing_coloring label solver distances G = Inr (None, None)"
    using none by blast
  from built x cs vars bounds inf_all none_all show ?thesis
    by (intro conjI)
qed

theorem empty_graph_has_no_solution_witness:
  "nodes empty_graph = []
   \<and> build_model str_nat path3_distances empty_graph = Inr (initial_model empty_graph)
   \<and> upBound (z_var empty_graph) = Some 0
   \<and> \<not> feasible (initial_model empty_graph) (\<lambda>y. 1)
   \<and> (1 / 1000 :: real) < 1 / 2
   \<and> solve_packing_coloring str_nat (checking_solver (\<lambda>y. 1)) path3_distances empty_graph
       = Inr (None, None)"
proof -
  have e: "nodes empty_graph = []" by (simp add: empty_graph_def)
  note t = empty_graph_has_no_solution [OF e, of str_nat path3_distances]
  note built = t [THEN conjunct1]
  note ub = t [THEN conjunct2, THEN conjunct2, THEN conjunct2, THEN conjunct2, THEN conjunct2,
      THEN conjunct1]
  note inf = t [THEN conjunct2, THEN conjunct2, THEN conjunct2, THEN conjunct2, THEN conjunct2,
      THEN conjunct2, THEN conjunct1]
  note last = t [THEN conjunct2, THEN conjunct2, THEN conjunct2, THEN conjunct2, THEN conjunct2,
      THEN conjunct2, THEN conjunct2, THEN spec, of "checking_solver (\<lambda>y. 1)",
      THEN spec, of "1 / 1000"]
  have tol: "(1 / 1000 :: real) < 1 / 2" by simp
  from inf have inf1: "\<not> feasible (initial_model empty_graph) (\<lambda>y. 1)" by blast
  have sound: "\<forall>val. checking_solver (\<lambda>y. 1) (initial_model empty_graph) = (LpStatusOptimal, val)
         \<longrightarrow> list_all (within_bounds (1 / 1000) val) (variables (initial_model empty_graph))"
    using inf1 by (simp add: checking_solver_def)
  have res: "solve_packing_coloring str_nat (checking_solver (\<lambda>y. 1)) path3_distances
               empty_graph
             = Inr (None, None)"
    using last tol sound by blast
  from e built ub inf1 tol res show ?thesis by (intro conjI)
qed

end
